theory Spec2Isabelle
  imports Complex_Main
begin

section \<open>The aspect and pattern engine of moongate (astro_aspects.c, astro_core.c)\<close>

text \<open>
  The C sources compute with \<^verbatim>\<open>double\<close>. The embedding reads every \<^verbatim>\<open>double\<close>
  as a real number: comparisons, subtraction and \<^verbatim>\<open>fabs\<close> are the exact ones, so
  rounding, infinities and NaN are outside the model. A C \<^verbatim>\<open>int\<close> is an
  \<^typ>\<open>int\<close>; none of the modelled arithmetic on it can overflow (counters bounded by
  list lengths). An array passed together with its element count
  (\<^verbatim>\<open>positions[]\<close>/\<^verbatim>\<open>num_planets\<close>, \<^verbatim>\<open>aspects[]\<close>/\<^verbatim>\<open>num_aspects\<close>) is one list
  whose length is the count; a pointer that may be \<^verbatim>\<open>NULL\<close> is an option.
\<close>

subsection \<open>Types (astro_types.h, astro_aspects.h)\<close>

text \<open>\<^verbatim>\<open>AstroPlanet\<close> and \<^verbatim>\<open>AstroSign\<close> are C enums used as array indices and
  compared with \<^verbatim>\<open>int\<close> loop variables and the sentinel \<^verbatim>\<open>-1\<close>; they are integers
  here. The enumerators of \<^verbatim>\<open>AstroPlanet\<close> are 0..22, those of \<^verbatim>\<open>AstroSign\<close> 0..11.\<close>

type_synonym AstroPlanet = int
type_synonym AstroSign = int

datatype AstroAspectType =
    ASTRO_ASPECT_CONJUNCTION
  | ASTRO_ASPECT_OPPOSITION
  | ASTRO_ASPECT_TRINE
  | ASTRO_ASPECT_SQUARE
  | ASTRO_ASPECT_SEXTILE
  | ASTRO_ASPECT_QUINCUNX
  | ASTRO_ASPECT_SEMISEXTILE
  | ASTRO_ASPECT_SEMISQUARE
  | ASTRO_ASPECT_SESQUIQUADRATE
  | ASTRO_ASPECT_QUINTILE
  | ASTRO_ASPECT_BIQUINTILE

text \<open>The enumerator values: each aspect type is its exact angle in degrees.\<close>

fun aspect_type_value :: "AstroAspectType \<Rightarrow> int" where
  "aspect_type_value ASTRO_ASPECT_CONJUNCTION = 0"
| "aspect_type_value ASTRO_ASPECT_OPPOSITION = 180"
| "aspect_type_value ASTRO_ASPECT_TRINE = 120"
| "aspect_type_value ASTRO_ASPECT_SQUARE = 90"
| "aspect_type_value ASTRO_ASPECT_SEXTILE = 60"
| "aspect_type_value ASTRO_ASPECT_QUINCUNX = 150"
| "aspect_type_value ASTRO_ASPECT_SEMISEXTILE = 30"
| "aspect_type_value ASTRO_ASPECT_SEMISQUARE = 45"
| "aspect_type_value ASTRO_ASPECT_SESQUIQUADRATE = 135"
| "aspect_type_value ASTRO_ASPECT_QUINTILE = 72"
| "aspect_type_value ASTRO_ASPECT_BIQUINTILE = 144"

text \<open>\<^verbatim>\<open>AstroErrorCode\<close>: the codes the modelled functions return.\<close>

definition ASTRO_OK :: int where "ASTRO_OK = 0"
definition ASTRO_ERROR_CALCULATION :: int where "ASTRO_ERROR_CALCULATION = - 4"
definition ASTRO_ERROR_INVALID_PLANET :: int where "ASTRO_ERROR_INVALID_PLANET = - 5"
definition ASTRO_ERROR_NULL_POINTER :: int where "ASTRO_ERROR_NULL_POINTER = - 7"

definition ASTRO_MAX_PLANETS :: nat where "ASTRO_MAX_PLANETS = 23"
definition ASTRO_MAX_NAME_LEN :: nat where "ASTRO_MAX_NAME_LEN = 64"

record AstroPlanetPosition =
  planet :: AstroPlanet
  longitude :: real
  latitude :: real
  distance :: real
  longitude_speed :: real
  latitude_speed :: real
  distance_speed :: real
  sign :: AstroSign
  sign_position :: real
  house :: int
  is_retrograde :: int
  name :: string

record AstroAspect =
  planet1 :: AstroPlanet
  planet2 :: AstroPlanet
  aspect_type :: AstroAspectType
  orb :: real
  difference :: real
  is_applying :: int
  is_exact :: int
  aspect_name :: string

record AstroAspectConfig =
  config_aspect_type :: AstroAspectType
  default_orb :: real
  tight_orb :: real
  is_major :: int

text \<open>A write-only destination pointer: only whether it is \<^verbatim>\<open>NULL\<close> matters.\<close>

datatype out_ptr = OUT_NULL | OUT_VALID

subsection \<open>Angular geometry (astro_core.c)\<close>

definition astro_core_angular_distance :: "real \<Rightarrow> real \<Rightarrow> real" where
  "astro_core_angular_distance lon1 lon2 =
     (let diff = \<bar>lon2 - lon1\<bar>
      in if diff > 180 then 360 - diff else diff)"

subsection \<open>The aspect configuration table (astro_aspects.c)\<close>

text \<open>The static table \<^verbatim>\<open>g_aspect_configs\<close> is process-wide mutable state. Its
  initial value is the constant below; every function that reads or writes the table takes
  the current table as an argument, and the two mutators return the new table.\<close>

definition g_aspect_configs :: "AstroAspectConfig list" where
  "g_aspect_configs =
    [\<lparr>config_aspect_type = ASTRO_ASPECT_CONJUNCTION, default_orb = 8, tight_orb = 3, is_major = 1\<rparr>,
     \<lparr>config_aspect_type = ASTRO_ASPECT_OPPOSITION, default_orb = 8, tight_orb = 3, is_major = 1\<rparr>,
     \<lparr>config_aspect_type = ASTRO_ASPECT_TRINE, default_orb = 8, tight_orb = 3, is_major = 1\<rparr>,
     \<lparr>config_aspect_type = ASTRO_ASPECT_SQUARE, default_orb = 8, tight_orb = 3, is_major = 1\<rparr>,
     \<lparr>config_aspect_type = ASTRO_ASPECT_SEXTILE, default_orb = 6, tight_orb = 2, is_major = 1\<rparr>,
     \<lparr>config_aspect_type = ASTRO_ASPECT_QUINCUNX, default_orb = 3, tight_orb = 1, is_major = 0\<rparr>,
     \<lparr>config_aspect_type = ASTRO_ASPECT_SEMISEXTILE, default_orb = 3, tight_orb = 1, is_major = 0\<rparr>,
     \<lparr>config_aspect_type = ASTRO_ASPECT_SEMISQUARE, default_orb = 3, tight_orb = 1, is_major = 0\<rparr>,
     \<lparr>config_aspect_type = ASTRO_ASPECT_SESQUIQUADRATE, default_orb = 3, tight_orb = 1, is_major = 0\<rparr>,
     \<lparr>config_aspect_type = ASTRO_ASPECT_QUINTILE, default_orb = 2, tight_orb = 1 / 2, is_major = 0\<rparr>,
     \<lparr>config_aspect_type = ASTRO_ASPECT_BIQUINTILE, default_orb = 2, tight_orb = 1 / 2, is_major = 0\<rparr>]"

text \<open>\<^verbatim>\<open>get_aspect_config\<close>: the loop over \<^verbatim>\<open>i = 0 .. g_num_aspect_configs - 1\<close>
  returning a pointer to the first entry of the given type, or \<^verbatim>\<open>NULL\<close>. The pointer
  is the entry's index; the first argument is the index of the head of the list.\<close>

fun get_aspect_config_from :: "nat \<Rightarrow> AstroAspectConfig list \<Rightarrow> AstroAspectType \<Rightarrow> nat option" where
  "get_aspect_config_from i [] t = None"
| "get_aspect_config_from i (c # cs) t =
     (if config_aspect_type c = t then Some i else get_aspect_config_from (Suc i) cs t)"

definition get_aspect_config :: "AstroAspectConfig list \<Rightarrow> AstroAspectType \<Rightarrow> nat option" where
  "get_aspect_config cfgs t = get_aspect_config_from 0 cfgs t"

definition astro_aspects_set_orb ::
  "AstroAspectConfig list \<Rightarrow> AstroAspectType \<Rightarrow> real \<Rightarrow> AstroAspectConfig list" where
  "astro_aspects_set_orb cfgs t new_orb =
     (case get_aspect_config cfgs t of
        Some i \<Rightarrow> cfgs[i := (cfgs ! i)\<lparr>default_orb := new_orb\<rparr>]
      | None \<Rightarrow> cfgs)"

definition astro_aspects_get_orb :: "AstroAspectConfig list \<Rightarrow> AstroAspectType \<Rightarrow> real" where
  "astro_aspects_get_orb cfgs t =
     (case get_aspect_config cfgs t of
        Some i \<Rightarrow> default_orb (cfgs ! i)
      | None \<Rightarrow> 0)"

text \<open>\<^verbatim>\<open>astro_aspects_reset_orbs\<close> assigns the eleven entries one by one.\<close>

definition astro_aspects_reset_orbs :: "AstroAspectConfig list \<Rightarrow> AstroAspectConfig list" where
  "astro_aspects_reset_orbs cfgs =
     cfgs[0 := g_aspect_configs ! 0, 1 := g_aspect_configs ! 1, 2 := g_aspect_configs ! 2,
          3 := g_aspect_configs ! 3, 4 := g_aspect_configs ! 4, 5 := g_aspect_configs ! 5,
          6 := g_aspect_configs ! 6, 7 := g_aspect_configs ! 7, 8 := g_aspect_configs ! 8,
          9 := g_aspect_configs ! 9, 10 := g_aspect_configs ! 10]"

text \<open>The tables the program can ever hold: the initial one, and whatever the two
  mutators make of a table it can hold.\<close>

inductive config_reachable :: "AstroAspectConfig list \<Rightarrow> bool" where
  initial: "config_reachable g_aspect_configs"
| set_orb: "config_reachable cfgs \<Longrightarrow> config_reachable (astro_aspects_set_orb cfgs t new_orb)"
| reset_orbs: "config_reachable cfgs \<Longrightarrow> config_reachable (astro_aspects_reset_orbs cfgs)"

subsection \<open>Aspect detection (astro_aspects.c)\<close>

text \<open>The scan of \<^verbatim>\<open>astro_aspects_check_aspect\<close> over the table, in table order,
  returning at the first entry within its default orb. The function returns 1 and stores
  the type and the difference through its two pointers (\<open>Some\<close>), or returns 0
  (\<open>None\<close>). The source skips a store through a pointer that is \<^verbatim>\<open>NULL\<close>; its
  only caller passes both pointers, and the model always gives both values.\<close>

fun check_aspect_scan :: "real \<Rightarrow> AstroAspectConfig list \<Rightarrow> (AstroAspectType \<times> real) option" where
  "check_aspect_scan angular_dist [] = None"
| "check_aspect_scan angular_dist (config # rest) =
     (let aspect_angle = real_of_int (aspect_type_value (config_aspect_type config));
          diff = \<bar>angular_dist - aspect_angle\<bar>
      in if diff \<le> default_orb config
         then Some (config_aspect_type config, diff)
         else check_aspect_scan angular_dist rest)"

definition astro_aspects_check_aspect ::
  "AstroAspectConfig list \<Rightarrow> real \<Rightarrow> real \<Rightarrow> (AstroAspectType \<times> real) option" where
  "astro_aspects_check_aspect cfgs lon1 lon2 =
     check_aspect_scan (astro_core_angular_distance lon1 lon2) cfgs"

text \<open>\<^verbatim>\<open>astro_aspects_is_applying\<close> reads of \<^verbatim>\<open>*aspect\<close> only its
  \<^verbatim>\<open>aspect_type\<close>; the third argument is that field, or \<open>None\<close> for a
  \<^verbatim>\<open>NULL\<close> aspect pointer. The result is 1 (applying), 0 (separating) or -1.\<close>

definition astro_aspects_is_applying ::
  "AstroPlanetPosition option \<Rightarrow> AstroPlanetPosition option \<Rightarrow> AstroAspectType option \<Rightarrow> int" where
  "astro_aspects_is_applying pos1 pos2 aspect =
     (case (pos1, pos2, aspect) of
        (Some p1, Some p2, Some a_type) \<Rightarrow>
          (let speed_diff = longitude_speed p1 - longitude_speed p2
           in if \<bar>speed_diff\<bar> < 1 / 100 then - 1
              else
                (let target_angle = real_of_int (aspect_type_value a_type);
                     current_angle = astro_core_angular_distance (longitude p1) (longitude p2)
                 in if speed_diff > 0
                    then (if current_angle < target_angle then 1 else 0)
                    else (if current_angle > target_angle then 1 else 0)))
      | _ \<Rightarrow> - 1)"

fun astro_aspects_get_name :: "AstroAspectType \<Rightarrow> string" where
  "astro_aspects_get_name ASTRO_ASPECT_CONJUNCTION = ''conjunction''"
| "astro_aspects_get_name ASTRO_ASPECT_OPPOSITION = ''opposition''"
| "astro_aspects_get_name ASTRO_ASPECT_TRINE = ''trine''"
| "astro_aspects_get_name ASTRO_ASPECT_SQUARE = ''square''"
| "astro_aspects_get_name ASTRO_ASPECT_SEXTILE = ''sextile''"
| "astro_aspects_get_name ASTRO_ASPECT_QUINCUNX = ''quincunx''"
| "astro_aspects_get_name ASTRO_ASPECT_SEMISEXTILE = ''semi-sextile''"
| "astro_aspects_get_name ASTRO_ASPECT_SEMISQUARE = ''semi-square''"
| "astro_aspects_get_name ASTRO_ASPECT_SESQUIQUADRATE = ''sesquiquadrate''"
| "astro_aspects_get_name ASTRO_ASPECT_QUINTILE = ''quintile''"
| "astro_aspects_get_name ASTRO_ASPECT_BIQUINTILE = ''biquintile''"

text \<open>\<^verbatim>\<open>snprintf(buf, size, ...)\<close> keeps at most \<open>buf_size - 1\<close> characters.\<close>

definition snprintf_text :: "nat \<Rightarrow> string \<Rightarrow> string" where
  "snprintf_text buf_size s = take (buf_size - 1) s"

text \<open>\<^verbatim>\<open>astro_aspects_calc_aspect\<close>. The result is \<open>Inr\<close> of the record stored
  through \<^verbatim>\<open>aspect\<close> when the function returns \<^verbatim>\<open>ASTRO_OK\<close>, and \<open>Inl\<close> of the
  returned error code otherwise (nothing is stored then). After a match the source looks
  the matched type up again with \<^verbatim>\<open>get_aspect_config\<close> and dereferences the result
  without a check; the model marks a failed lookup with the null-pointer code, and lemma
  \<open>check_aspect_scan_config_found\<close> shows that the lookup never fails.\<close>

definition astro_aspects_calc_aspect ::
  "AstroAspectConfig list \<Rightarrow> AstroPlanetPosition option \<Rightarrow> AstroPlanetPosition option \<Rightarrow> out_ptr
     \<Rightarrow> int + AstroAspect" where
  "astro_aspects_calc_aspect cfgs pos1 pos2 aspect =
     (case (pos1, pos2, aspect) of
        (Some p1, Some p2, OUT_VALID) \<Rightarrow>
          (if planet p1 = planet p2 then Inl ASTRO_ERROR_INVALID_PLANET
           else
             (case astro_aspects_check_aspect cfgs (longitude p1) (longitude p2) of
                Some (a_type, orb_diff) \<Rightarrow>
                  (case get_aspect_config cfgs a_type of
                     Some i \<Rightarrow>
                       Inr \<lparr>planet1 = planet p1,
                            planet2 = planet p2,
                            aspect_type = a_type,
                            orb = astro_core_angular_distance (longitude p1) (longitude p2),
                            difference = orb_diff,
                            is_applying = astro_aspects_is_applying pos1 pos2 (Some a_type),
                            is_exact = (if orb_diff \<le> tight_orb (cfgs ! i) then 1 else 0),
                            aspect_name = snprintf_text ASTRO_MAX_NAME_LEN
                              (name p1 @ '' '' @ astro_aspects_get_name a_type @ '' '' @ name p2)\<rparr>
                   | None \<Rightarrow> Inl ASTRO_ERROR_NULL_POINTER)
              | None \<Rightarrow> Inl ASTRO_ERROR_CALCULATION))
      | _ \<Rightarrow> Inl ASTRO_ERROR_NULL_POINTER)"

text \<open>The code a call returns.\<close>

definition return_code :: "int + 'a \<Rightarrow> int" where
  "return_code r = (case r of Inl e \<Rightarrow> e | Inr v \<Rightarrow> ASTRO_OK)"

subsection \<open>Building the aspect set (astro_aspects.c)\<close>

text \<open>In the three collecting functions the list \<open>found\<close> holds the records written
  so far, in index order: the source writes only at index \<^verbatim>\<open>count\<close> and then
  increments it, so \<^verbatim>\<open>count\<close> is the length of \<open>found\<close>. The caller's buffer has
  \<^verbatim>\<open>max_aspects\<close> (\<^verbatim>\<open>max_patterns\<close>) slots: an entry of \<open>found\<close> at an index
  from the capacity on is a write past the end of that buffer. A successful call is
  \<open>Inr\<close> of the entries written and the count stored through the last pointer.\<close>

text \<open>The inner loop of \<^verbatim>\<open>astro_aspects_calc_all\<close>: \<^verbatim>\<open>positions[i]\<close> against
  \<^verbatim>\<open>positions[i+1 ..]\<close>.\<close>

fun calc_all_inner ::
  "AstroAspectConfig list \<Rightarrow> AstroPlanetPosition \<Rightarrow> AstroPlanetPosition list \<Rightarrow> int
     \<Rightarrow> AstroAspect list \<Rightarrow> AstroAspect list" where
  "calc_all_inner cfgs pos_i [] max_aspects found = found"
| "calc_all_inner cfgs pos_i (pos_j # rest) max_aspects found =
     (if int (length found) < max_aspects
      then calc_all_inner cfgs pos_i rest max_aspects
             (case astro_aspects_calc_aspect cfgs (Some pos_i) (Some pos_j) OUT_VALID of
                Inr aspect \<Rightarrow> found @ [aspect]
              | Inl e \<Rightarrow> found)
      else found)"

fun calc_all_outer ::
  "AstroAspectConfig list \<Rightarrow> AstroPlanetPosition list \<Rightarrow> int
     \<Rightarrow> AstroAspect list \<Rightarrow> AstroAspect list" where
  "calc_all_outer cfgs [] max_aspects found = found"
| "calc_all_outer cfgs (pos_i # rest) max_aspects found =
     (if int (length found) < max_aspects
      then calc_all_outer cfgs rest max_aspects (calc_all_inner cfgs pos_i rest max_aspects found)
      else found)"

definition astro_aspects_calc_all ::
  "AstroAspectConfig list \<Rightarrow> AstroPlanetPosition list option \<Rightarrow> out_ptr \<Rightarrow> int \<Rightarrow> out_ptr
     \<Rightarrow> int + (AstroAspect list \<times> int)" where
  "astro_aspects_calc_all cfgs positions aspects max_aspects num_aspects =
     (case (positions, aspects, num_aspects) of
        (Some ps, OUT_VALID, OUT_VALID) \<Rightarrow>
          (let found = calc_all_outer cfgs ps max_aspects []
           in Inr (found, int (length found)))
      | _ \<Rightarrow> Inl ASTRO_ERROR_NULL_POINTER)"

text \<open>\<^verbatim>\<open>astro_aspects_calc_between_charts\<close>: every transit position against every
  natal position.\<close>

fun calc_between_inner ::
  "AstroAspectConfig list \<Rightarrow> AstroPlanetPosition \<Rightarrow> AstroPlanetPosition list \<Rightarrow> int
     \<Rightarrow> AstroAspect list \<Rightarrow> AstroAspect list" where
  "calc_between_inner cfgs transit_i [] max_aspects found = found"
| "calc_between_inner cfgs transit_i (natal_j # rest) max_aspects found =
     (if int (length found) < max_aspects
      then calc_between_inner cfgs transit_i rest max_aspects
             (case astro_aspects_calc_aspect cfgs (Some transit_i) (Some natal_j) OUT_VALID of
                Inr aspect \<Rightarrow> found @ [aspect]
              | Inl e \<Rightarrow> found)
      else found)"

fun calc_between_outer ::
  "AstroAspectConfig list \<Rightarrow> AstroPlanetPosition list \<Rightarrow> AstroPlanetPosition list \<Rightarrow> int
     \<Rightarrow> AstroAspect list \<Rightarrow> AstroAspect list" where
  "calc_between_outer cfgs natal [] max_aspects found = found"
| "calc_between_outer cfgs natal (transit_i # rest) max_aspects found =
     (if int (length found) < max_aspects
      then calc_between_outer cfgs natal rest max_aspects
             (calc_between_inner cfgs transit_i natal max_aspects found)
      else found)"

definition astro_aspects_calc_between_charts ::
  "AstroAspectConfig list \<Rightarrow> AstroPlanetPosition list option \<Rightarrow> AstroPlanetPosition list option
     \<Rightarrow> out_ptr \<Rightarrow> int \<Rightarrow> out_ptr \<Rightarrow> int + (AstroAspect list \<times> int)" where
  "astro_aspects_calc_between_charts cfgs natal_positions transit_positions aspects max_aspects
       num_aspects =
     (case (natal_positions, transit_positions, aspects, num_aspects) of
        (Some natal, Some transit, OUT_VALID, OUT_VALID) \<Rightarrow>
          (let found = calc_between_outer cfgs natal transit max_aspects []
           in Inr (found, int (length found)))
      | _ \<Rightarrow> Inl ASTRO_ERROR_NULL_POINTER)"

subsection \<open>Pattern detection (astro_aspects.c)\<close>

datatype AstroPatternType =
    ASTRO_PATTERN_GRAND_TRINE
  | ASTRO_PATTERN_T_SQUARE
  | ASTRO_PATTERN_GRAND_CROSS
  | ASTRO_PATTERN_YOD
  | ASTRO_PATTERN_KITE
  | ASTRO_PATTERN_STELLIUM
  | ASTRO_PATTERN_MYSTIC_RECTANGLE

text \<open>\<^verbatim>\<open>AstroPattern\<close>. The C field \<^verbatim>\<open>planets\<close> has 6 slots; the model lists the
  values the source assigns to \<^verbatim>\<open>planets[0]\<close> .. \<^verbatim>\<open>planets[5]\<close> in index order, so
  the list has at most 6 entries (what a store at a higher index does is written out at the
  Stellium scan). The field \<^verbatim>\<open>element\<close> is never assigned by name by the pattern detector
  and is left out. The description
  is \<open>None\<close> when the source formats the name of \<^verbatim>\<open>positions[p]\<close> for an index
  \<open>p\<close> outside the list of positions, where the text depends on memory that is not part of
  the call's arguments.\<close>

record AstroPattern =
  pattern_type :: AstroPatternType
  planets :: "AstroPlanet list"
  num_planets :: int
  description :: "string option"

definition position_name :: "AstroPlanetPosition list \<Rightarrow> int \<Rightarrow> string option" where
  "position_name positions p =
     (if 0 \<le> p \<and> p < int (length positions) then Some (name (positions ! nat p)) else None)"

definition sign_names :: "string list" where
  "sign_names = [''Aries'', ''Taurus'', ''Gemini'', ''Cancer'', ''Leo'', ''Virgo'',
                 ''Libra'', ''Scorpio'', ''Sagittarius'', ''Capricorn'', ''Aquarius'', ''Pisces'']"

definition astro_core_get_sign_name :: "AstroSign \<Rightarrow> string" where
  "astro_core_get_sign_name sign_no =
     (if sign_no \<ge> 0 \<and> sign_no < 12 then sign_names ! nat sign_no else ''Unknown'')"

text \<open>\<^verbatim>\<open>%d\<close> of a non-negative number.\<close>

fun decimal :: "nat \<Rightarrow> string" where
  "decimal n =
     (if n < 10 then [''0123456789'' ! n]
      else decimal (n div 10) @ [''0123456789'' ! (n mod 10)])"

declare decimal.simps [simp del]

definition grand_trine_description ::
  "AstroPlanetPosition list \<Rightarrow> AstroPlanet \<Rightarrow> AstroPlanet \<Rightarrow> AstroPlanet \<Rightarrow> string option" where
  "grand_trine_description positions p1 p2 third_planet =
     (case (position_name positions p1, position_name positions p2,
            position_name positions third_planet) of
        (Some n1, Some n2, Some n3) \<Rightarrow>
          Some (snprintf_text 256 (''Grand Trine: '' @ n1 @ '', '' @ n2 @ '', '' @ n3))
      | _ \<Rightarrow> None)"

definition t_square_description ::
  "AstroPlanetPosition list \<Rightarrow> AstroPlanet \<Rightarrow> AstroPlanet \<Rightarrow> AstroPlanet \<Rightarrow> string option" where
  "t_square_description positions p1 p2 sq2 =
     (case (position_name positions p1, position_name positions p2,
            position_name positions sq2) of
        (Some n1, Some n2, Some n3) \<Rightarrow>
          Some (snprintf_text 256
                  (''T-Square: '' @ n1 @ '' opp '' @ n2 @ '', both square '' @ n3))
      | _ \<Rightarrow> None)"

text \<open>Grand Trines. The innermost loop (index \<^verbatim>\<open>k\<close>) runs over all aspects and, at
  the first one that passes its test, writes a pattern at \<^verbatim>\<open>patterns[count]\<close>,
  increments \<^verbatim>\<open>count\<close> and breaks.\<close>

fun grand_trine_third_side ::
  "AstroAspect list \<Rightarrow> AstroPlanetPosition list \<Rightarrow> AstroPlanet \<Rightarrow> AstroPlanet \<Rightarrow> AstroPlanet
     \<Rightarrow> AstroPattern list \<Rightarrow> AstroPattern list" where
  "grand_trine_third_side [] positions p1 p2 third_planet found = found"
| "grand_trine_third_side (ak # rest) positions p1 p2 third_planet found =
     (if aspect_type ak = ASTRO_ASPECT_TRINE \<and>
         ((planet1 ak = p1 \<and> planet2 ak = third_planet) \<or>
          (planet2 ak = p1 \<and> planet1 ak = third_planet) \<or>
          (planet1 ak = p2 \<and> planet2 ak = third_planet) \<or>
          (planet2 ak = p2 \<and> planet1 ak = third_planet))
      then found @
             [\<lparr>pattern_type = ASTRO_PATTERN_GRAND_TRINE,
               planets = [p1, p2, third_planet],
               num_planets = 3,
               description = grand_trine_description positions p1 p2 third_planet\<rparr>]
      else grand_trine_third_side rest positions p1 p2 third_planet found)"

text \<open>The middle loop (index \<^verbatim>\<open>j\<close>): aspect \<^verbatim>\<open>aspects[i]\<close> against
  \<^verbatim>\<open>aspects[i+1 ..]\<close>. It has no test of \<^verbatim>\<open>count\<close> against the capacity. The
  candidate \<^verbatim>\<open>third_planet\<close> starts as \<^verbatim>\<open>-1\<close> and is tested with
  \<^verbatim>\<open>third_planet >= 0\<close>, which the model reads on signed integers.\<close>

fun grand_trine_second ::
  "AstroAspect list \<Rightarrow> AstroPlanetPosition list \<Rightarrow> AstroAspect \<Rightarrow> AstroAspect list
     \<Rightarrow> AstroPattern list \<Rightarrow> AstroPattern list" where
  "grand_trine_second aspects positions ai [] found = found"
| "grand_trine_second aspects positions ai (aj # rest) found =
     grand_trine_second aspects positions ai rest
       (if aspect_type aj = ASTRO_ASPECT_TRINE
        then
          (let p1 = planet1 ai; p2 = planet2 ai; p3a = planet1 aj; p3b = planet2 aj;
               third_planet =
                 (if p3a = p1 \<or> p3a = p2 then p3b
                  else if p3b = p1 \<or> p3b = p2 then p3a
                  else - 1)
           in if third_planet \<ge> 0
              then grand_trine_third_side aspects positions p1 p2 third_planet found
              else found)
        else found)"

text \<open>The outer loop (index \<^verbatim>\<open>i\<close>) over \<^verbatim>\<open>aspects[i ..]\<close>, guarded by
  \<^verbatim>\<open>count < max_patterns\<close>.\<close>

fun grand_trine_first ::
  "AstroAspect list \<Rightarrow> AstroPlanetPosition list \<Rightarrow> AstroAspect list \<Rightarrow> int
     \<Rightarrow> AstroPattern list \<Rightarrow> AstroPattern list" where
  "grand_trine_first aspects positions [] max_patterns found = found"
| "grand_trine_first aspects positions (ai # rest) max_patterns found =
     (if int (length found) < max_patterns
      then grand_trine_first aspects positions rest max_patterns
             (if aspect_type ai = ASTRO_ASPECT_TRINE
              then grand_trine_second aspects positions ai rest found
              else found)
      else found)"

text \<open>T-Squares: the same three-level shape; the two inner loops both run over all
  aspects.\<close>

fun t_square_third ::
  "AstroAspect list \<Rightarrow> AstroPlanetPosition list \<Rightarrow> AstroPlanet \<Rightarrow> AstroPlanet \<Rightarrow> AstroPlanet
     \<Rightarrow> AstroPattern list \<Rightarrow> AstroPattern list" where
  "t_square_third [] positions p1 p2 sq2 found = found"
| "t_square_third (ak # rest) positions p1 p2 sq2 found =
     (if aspect_type ak = ASTRO_ASPECT_SQUARE \<and>
         ((planet1 ak = sq2 \<and> (planet2 ak = p1 \<or> planet2 ak = p2)) \<or>
          (planet2 ak = sq2 \<and> (planet1 ak = p1 \<or> planet1 ak = p2)))
      then found @
             [\<lparr>pattern_type = ASTRO_PATTERN_T_SQUARE,
               planets = [p1, p2, sq2],
               num_planets = 3,
               description = t_square_description positions p1 p2 sq2\<rparr>]
      else t_square_third rest positions p1 p2 sq2 found)"

fun t_square_second ::
  "AstroAspect list \<Rightarrow> AstroPlanetPosition list \<Rightarrow> AstroPlanet \<Rightarrow> AstroPlanet \<Rightarrow> AstroAspect list
     \<Rightarrow> AstroPattern list \<Rightarrow> AstroPattern list" where
  "t_square_second aspects positions p1 p2 [] found = found"
| "t_square_second aspects positions p1 p2 (aj # rest) found =
     t_square_second aspects positions p1 p2 rest
       (if aspect_type aj = ASTRO_ASPECT_SQUARE
        then
          (let sq1 = planet1 aj; sq2 = planet2 aj
           in if (sq1 = p1 \<or> sq1 = p2) \<and> sq2 \<noteq> p1 \<and> sq2 \<noteq> p2
              then t_square_third aspects positions p1 p2 sq2 found
              else found)
        else found)"

fun t_square_first ::
  "AstroAspect list \<Rightarrow> AstroPlanetPosition list \<Rightarrow> AstroAspect list \<Rightarrow> int
     \<Rightarrow> AstroPattern list \<Rightarrow> AstroPattern list" where
  "t_square_first aspects positions [] max_patterns found = found"
| "t_square_first aspects positions (ai # rest) max_patterns found =
     (if int (length found) < max_patterns
      then t_square_first aspects positions rest max_patterns
             (if aspect_type ai = ASTRO_ASPECT_OPPOSITION
              then t_square_second aspects positions (planet1 ai) (planet2 ai) aspects found
              else found)
      else found)"

text \<open>Stelliums. The scan of the positions for one sign collects the indices of the
  bodies in that sign, at most \<^verbatim>\<open>ASTRO_MAX_PLANETS\<close> of them; the second argument is the
  index of the head of the list.\<close>

fun planets_in_sign_scan ::
  "AstroPlanetPosition list \<Rightarrow> nat \<Rightarrow> AstroSign \<Rightarrow> nat list \<Rightarrow> nat list" where
  "planets_in_sign_scan [] i sign_no planets_in_sign = planets_in_sign"
| "planets_in_sign_scan (p # rest) i sign_no planets_in_sign =
     (if length planets_in_sign < ASTRO_MAX_PLANETS
      then planets_in_sign_scan rest (Suc i) sign_no
             (if sign p = sign_no then planets_in_sign @ [i] else planets_in_sign)
      else planets_in_sign)"

text \<open>The store \<^verbatim>\<open>patterns[count].planets[i] = v\<close> of the Stellium scan. The struct is
  \<^verbatim>\<open>{pattern_type; planets[6]; num_planets; element; description[256]}\<close>, with enums and
  \<^verbatim>\<open>int\<close> of four bytes each and no padding, so the source's stores act as follows: for
  \<open>i < 6\<close> the value goes into slot \<open>i\<close>; \<^verbatim>\<open>planets[6]\<close> is outside the array
  and is the word of \<^verbatim>\<open>num_planets\<close>, which the store overwrites; \<^verbatim>\<open>planets[7]\<close> is the
  word of \<^verbatim>\<open>element\<close>, which the model does not hold; from index 8 on the stores land in
  \<^verbatim>\<open>description\<close>, which \<^verbatim>\<open>snprintf\<close> writes from its start after the loop.\<close>

definition store_participant :: "AstroPattern \<Rightarrow> nat \<Rightarrow> AstroPlanet \<Rightarrow> AstroPattern" where
  "store_participant pat i v =
     (if i < 6 then pat\<lparr>planets := planets pat @ [v]\<rparr>
      else if i = 6 then pat\<lparr>num_planets := v\<rparr>
      else pat)"

text \<open>The loop \<^verbatim>\<open>for (i = 0; i < num_in_sign; i++)\<close> over the collected bodies; the
  second argument is the index of the head of the list.\<close>

fun store_participants :: "AstroPattern \<Rightarrow> nat \<Rightarrow> AstroPlanet list \<Rightarrow> AstroPattern" where
  "store_participants pat i [] = pat"
| "store_participants pat i (v # vs) = store_participants (store_participant pat i v) (Suc i) vs"

text \<open>The loop over the twelve signs. For a sign with three or more bodies the source
  assigns \<^verbatim>\<open>pattern_type\<close> and \<^verbatim>\<open>num_planets\<close>, runs the loop of stores, and then formats
  the description from the local count \<^verbatim>\<open>num_in_sign\<close>.\<close>

function stellium_scan ::
  "AstroPlanetPosition list \<Rightarrow> int \<Rightarrow> int \<Rightarrow> AstroPattern list \<Rightarrow> AstroPattern list" where
  "stellium_scan positions sign_no max_patterns found =
     (if sign_no < 12 \<and> int (length found) < max_patterns
      then stellium_scan positions (sign_no + 1) max_patterns
             (if length (planets_in_sign_scan positions 0 sign_no []) \<ge> 3
              then found @
                     [(store_participants
                         \<lparr>pattern_type = ASTRO_PATTERN_STELLIUM,
                          planets = [],
                          num_planets = int (length (planets_in_sign_scan positions 0 sign_no [])),
                          description = None\<rparr>
                         0
                         (map (\<lambda>i. planet (positions ! i))
                              (planets_in_sign_scan positions 0 sign_no [])))
                      \<lparr>description := Some (snprintf_text 256
                         (''Stellium in '' @ astro_core_get_sign_name sign_no @ '' ('' @
                          decimal (length (planets_in_sign_scan positions 0 sign_no [])) @
                          '' planets)''))\<rparr>]
              else found)
      else found)"
  by pat_completeness auto
termination
  by (relation "measure (\<lambda>(positions, sign_no, max_patterns, found). nat (12 - sign_no))") auto

declare stellium_scan.simps [simp del]

definition astro_aspects_find_patterns ::
  "AstroPlanetPosition list option \<Rightarrow> AstroAspect list option \<Rightarrow> out_ptr \<Rightarrow> int \<Rightarrow> out_ptr
     \<Rightarrow> int + (AstroPattern list \<times> int)" where
  "astro_aspects_find_patterns positions aspects patterns max_patterns num_patterns =
     (case (positions, aspects, patterns, num_patterns) of
        (Some ps, Some asps, OUT_VALID, OUT_VALID) \<Rightarrow>
          (let found1 = grand_trine_first asps ps asps max_patterns [];
               found2 = t_square_first asps ps asps max_patterns found1;
               found3 = stellium_scan ps 0 max_patterns found2
           in Inr (found3, int (length found3)))
      | _ \<Rightarrow> Inl ASTRO_ERROR_NULL_POINTER)"

subsection \<open>The scan as the specification words it\<close>

text \<open>The specification's reading of aspect detection, for comparison with the source:
  the eleven families are tried in the order in which they are registered, each against
  the orb currently configured for it (\<^verbatim>\<open>astro_aspects_get_orb\<close>), and the first
  family within its orb is the answer.\<close>

definition registration_order :: "AstroAspectType list" where
  "registration_order =
     [ASTRO_ASPECT_CONJUNCTION, ASTRO_ASPECT_OPPOSITION, ASTRO_ASPECT_TRINE, ASTRO_ASPECT_SQUARE,
      ASTRO_ASPECT_SEXTILE, ASTRO_ASPECT_QUINCUNX, ASTRO_ASPECT_SEMISEXTILE,
      ASTRO_ASPECT_SEMISQUARE, ASTRO_ASPECT_SESQUIQUADRATE, ASTRO_ASPECT_QUINTILE,
      ASTRO_ASPECT_BIQUINTILE]"

definition first_family_within_orb ::
  "AstroAspectConfig list \<Rightarrow> real \<Rightarrow> real \<Rightarrow> (AstroAspectType \<times> real) option" where
  "first_family_within_orb cfgs lon1 lon2 =
     (let d = astro_core_angular_distance lon1 lon2
      in case find (\<lambda>f. \<bar>d - real_of_int (aspect_type_value f)\<bar> \<le> astro_aspects_get_orb cfgs f)
                   registration_order of
           Some f \<Rightarrow> Some (f, \<bar>d - real_of_int (aspect_type_value f)\<bar>)
         | None \<Rightarrow> None)"

subsection \<open>Concrete charts\<close>

text \<open>A body record with the given identifier, longitude, speed, sign and name; the
  remaining fields, which the engine never reads, are filled in consistently.\<close>

definition example_body ::
  "AstroPlanet \<Rightarrow> real \<Rightarrow> real \<Rightarrow> AstroSign \<Rightarrow> string \<Rightarrow> AstroPlanetPosition" where
  "example_body p lon speed sg nm =
     \<lparr>planet = p, longitude = lon, latitude = 0, distance = 1,
      longitude_speed = speed, latitude_speed = 0, distance_speed = 0,
      sign = sg, sign_position = lon - 30 * real_of_int sg, house = 1,
      is_retrograde = (if speed < 0 then 1 else 0), name = nm\<rparr>"

text \<open>What a successful call of one of the collecting functions leaves behind: the
  entries it wrote, and the count it stored.\<close>

definition entries_written :: "int + ('a list \<times> int) \<Rightarrow> 'a list" where
  "entries_written r = (case r of Inr (entries, n) \<Rightarrow> entries | Inl e \<Rightarrow> [])"

definition count_stored :: "int + ('a list \<times> int) \<Rightarrow> int option" where
  "count_stored r = (case r of Inr (entries, n) \<Rightarrow> Some n | Inl e \<Rightarrow> None)"

definition patterns_of_type :: "AstroPatternType \<Rightarrow> AstroPattern list \<Rightarrow> AstroPattern list" where
  "patterns_of_type t pats = filter (\<lambda>p. pattern_type p = t) pats"

text \<open>The aspect set of a chart, as \<^verbatim>\<open>astro_aspects_calc_all\<close> builds it under the
  built-in table with room for \<^verbatim>\<open>ASTRO_MAX_ASPECTS\<close> = 50 entries.\<close>

definition chart_aspects :: "AstroPlanetPosition list \<Rightarrow> AstroAspect list" where
  "chart_aspects chart =
     entries_written (astro_aspects_calc_all g_aspect_configs (Some chart) OUT_VALID 50 OUT_VALID)"

text \<open>Three bodies 120 degrees apart.\<close>

definition grand_trine_chart :: "AstroPlanetPosition list" where
  "grand_trine_chart =
     [example_body 0 0 1 0 ''Sun'', example_body 1 120 13 4 ''Moon'',
      example_body 2 240 (3 / 2) 8 ''Mercury'']"

text \<open>A body in trine to two others (113 degrees each way) that are 134 degrees apart from
  each other, which is a sesquiquadrate and no trine.\<close>

definition open_trine_chart :: "AstroPlanetPosition list" where
  "open_trine_chart =
     [example_body 0 0 1 0 ''Sun'', example_body 1 113 13 3 ''Moon'',
      example_body 2 247 (3 / 2) 8 ''Mercury'']"

text \<open>An opposition (174 degrees) and a third body that is square to one end (95 degrees)
  and 79 degrees from the other end, where no family matches.\<close>

definition half_square_chart :: "AstroPlanetPosition list" where
  "half_square_chart =
     [example_body 0 0 1 0 ''Sun'', example_body 1 174 13 5 ''Moon'',
      example_body 2 95 (3 / 2) 3 ''Mercury'']"

text \<open>Seven bodies in the first sign: Sun to Jupiter (identifiers 0 to 5) and Pluto
  (identifier 9).\<close>

definition crowded_sign_chart :: "AstroPlanetPosition list" where
  "crowded_sign_chart =
     [example_body 0 1 1 0 ''Sun'', example_body 1 4 13 0 ''Moon'',
      example_body 2 8 (3 / 2) 0 ''Mercury'', example_body 3 12 1 0 ''Venus'',
      example_body 4 17 (1 / 2) 0 ''Mars'', example_body 5 22 (1 / 10) 0 ''Jupiter'',
      example_body 9 28 (1 / 100) 0 ''Pluto'']"

text \<open>What the pattern detector's loops guarantee for a record: a Grand Trine and a
  T-Square have the count 3 and three participants; a Stellium lists at least three
  participants and no more than the six slots can hold.\<close>

definition participants_consistent :: "AstroPattern \<Rightarrow> bool" where
  "participants_consistent p =
     (if pattern_type p = ASTRO_PATTERN_STELLIUM
      then 3 \<le> length (planets p) \<and> length (planets p) \<le> 6
      else num_planets p = 3 \<and> length (planets p) = 3)"

section \<open>Properties\<close>

subsection \<open>The configuration table\<close>

lemma get_aspect_config_from_Some:
  "get_aspect_config_from k cs t = Some i \<Longrightarrow>
     \<exists>j<length cs. i = k + j \<and> config_aspect_type (cs ! j) = t"
proof (induction cs arbitrary: k)
  case Nil then show ?case by simp
next
  case (Cons c cs)
  show ?case
  proof (cases "config_aspect_type c = t")
    case True with Cons.prems show ?thesis by auto
  next
    case False
    with Cons.prems have "get_aspect_config_from (Suc k) cs t = Some i" by simp
    from Cons.IH[OF this] obtain j where "j < length cs" "i = Suc k + j"
      "config_aspect_type (cs ! j) = t" by blast
    then have "Suc j < length (c # cs) \<and> i = k + Suc j \<and> config_aspect_type ((c # cs) ! Suc j) = t"
      by simp
    then show ?thesis by blast
  qed
qed

lemma get_aspect_config_in_range:
  "get_aspect_config cfgs t = Some i \<Longrightarrow> i < length cfgs \<and> config_aspect_type (cfgs ! i) = t"
  using get_aspect_config_from_Some[of 0 cfgs t i] by (auto simp: get_aspect_config_def)

lemma get_aspect_config_from_member:
  "distinct (map config_aspect_type cs) \<Longrightarrow> j < length cs \<Longrightarrow>
     get_aspect_config_from k cs (config_aspect_type (cs ! j)) = Some (k + j)"
proof (induction cs arbitrary: k j)
  case Nil then show ?case by simp
next
  case (Cons c cs)
  show ?case
  proof (cases j)
    case 0 then show ?thesis by simp
  next
    case (Suc j')
    with Cons.prems have j': "j' < length cs" and d: "distinct (map config_aspect_type cs)"
      and ne: "config_aspect_type c \<noteq> config_aspect_type (cs ! j')"
      by (auto simp: image_iff) 
    from Cons.IH[OF d j', of "Suc k"] ne Suc show ?thesis by simp
  qed
qed

lemma get_orb_member:
  "distinct (map config_aspect_type cs) \<Longrightarrow> c \<in> set cs \<Longrightarrow>
     get_aspect_config cs (config_aspect_type c) \<noteq> None \<and>
     cs ! the (get_aspect_config cs (config_aspect_type c)) = c \<and>
     astro_aspects_get_orb cs (config_aspect_type c) = default_orb c"
  by (auto simp: in_set_conv_nth astro_aspects_get_orb_def get_aspect_config_def
        get_aspect_config_from_member)

lemma set_orb_types:
  "map config_aspect_type (astro_aspects_set_orb cfgs t x) = map config_aspect_type cfgs"
proof (cases "get_aspect_config cfgs t")
  case None then show ?thesis by (simp add: astro_aspects_set_orb_def)
next
  case (Some i)
  from get_aspect_config_in_range[OF Some]
  have "i < length cfgs" by simp
  then show ?thesis using Some
    by (simp add: astro_aspects_set_orb_def map_update list_update_same_conv)
qed

lemma set_orb_tight:
  "map tight_orb (astro_aspects_set_orb cfgs t x) = map tight_orb cfgs"
proof (cases "get_aspect_config cfgs t")
  case None then show ?thesis by (simp add: astro_aspects_set_orb_def)
next
  case (Some i)
  from get_aspect_config_in_range[OF Some]
  have "i < length cfgs" by simp
  then show ?thesis using Some
    by (simp add: astro_aspects_set_orb_def map_update list_update_same_conv)
qed

lemma reset_orbs_table:
  "length cfgs = 11 \<Longrightarrow> astro_aspects_reset_orbs cfgs = g_aspect_configs"
  by (auto simp: astro_aspects_reset_orbs_def g_aspect_configs_def numeral_eq_Suc length_Suc_conv)

lemma config_reachable_shape:
  "config_reachable cfgs \<Longrightarrow>
     map config_aspect_type cfgs = registration_order \<and>
     map tight_orb cfgs = map tight_orb g_aspect_configs"
proof (induction rule: config_reachable.induct)
  case initial
  show ?case by (simp add: g_aspect_configs_def registration_order_def)
next
  case (set_orb cfgs t new_orb)
  then show ?case by (simp add: set_orb_types set_orb_tight)
next
  case (reset_orbs cfgs)
  then have "length (map config_aspect_type cfgs) = 11" by (simp add: registration_order_def)
  then have "length cfgs = 11" by simp
  then show ?case by (simp add: reset_orbs_table g_aspect_configs_def registration_order_def)
qed

lemma config_reachable_distinct:
  "config_reachable cfgs \<Longrightarrow> distinct (map config_aspect_type cfgs)"
  by (simp add: config_reachable_shape registration_order_def)

subsection \<open>Aspect detection\<close>

lemma check_aspect_scan_find:
  "(\<And>c. c \<in> set cs \<Longrightarrow> orb_of (config_aspect_type c) = default_orb c) \<Longrightarrow>
   check_aspect_scan d cs =
     (case find (\<lambda>f. \<bar>d - real_of_int (aspect_type_value f)\<bar> \<le> orb_of f)
                (map config_aspect_type cs) of
        Some f \<Rightarrow> Some (f, \<bar>d - real_of_int (aspect_type_value f)\<bar>)
      | None \<Rightarrow> None)"
  by (induction cs) (auto simp: Let_def)

lemma check_aspect_scan_Some:
  "check_aspect_scan d cs = Some (t, od) \<Longrightarrow>
     \<exists>c \<in> set cs. config_aspect_type c = t \<and> od \<le> default_orb c \<and>
        od = \<bar>d - real_of_int (aspect_type_value t)\<bar>"
  by (induction cs) (auto simp: Let_def split: if_splits)

lemma check_aspect_scan_config_found:
  "check_aspect_scan d cfgs = Some (t, od) \<Longrightarrow> get_aspect_config cfgs t \<noteq> None"
proof -
  have "t \<in> config_aspect_type ` set cs \<Longrightarrow> get_aspect_config_from k cs t \<noteq> None" for cs k
    by (induction cs arbitrary: k) auto
  moreover assume "check_aspect_scan d cfgs = Some (t, od)"
  ultimately show ?thesis
    using check_aspect_scan_Some[of d cfgs t od] by (force simp: get_aspect_config_def)
qed

subsection \<open>Detection and classification\<close>

text \<open>Claim C6. For every table the program can hold, \<^verbatim>\<open>astro_aspects_check_aspect\<close>
  returns what the scan in registration order returns: the first of Conjunction, Opposition,
  Trine, Square, Sextile, Quincunx, Semisextile, Semisquare, Sesquiquadrate, Quintile,
  Biquintile whose target angle is within the orb currently configured for that family of
  the angular distance, together with the difference; and no match when no family
  qualifies. Later families are not looked at, so there is no closest-match selection.\<close>

theorem check_aspect_first_match:
  assumes "config_reachable cfgs"
  shows "astro_aspects_check_aspect cfgs lon1 lon2 = first_family_within_orb cfgs lon1 lon2"
proof -
  have d: "distinct (map config_aspect_type cfgs)" using assms by (rule config_reachable_distinct)
  have "\<And>c. c \<in> set cfgs \<Longrightarrow> astro_aspects_get_orb cfgs (config_aspect_type c) = default_orb c"
    using get_orb_member[OF d] by blast
  from check_aspect_scan_find[of cfgs "astro_aspects_get_orb cfgs", OF this]
  show ?thesis using config_reachable_shape[OF assms]
    by (simp add: astro_aspects_check_aspect_def first_family_within_orb_def Let_def)
qed

text \<open>With the Trine orb widened to 20 degrees, a distance of 134 degrees is a Trine
  (difference 14), although the Sesquiquadrate at 135 degrees is closer.\<close>

theorem check_aspect_first_match_witness:
  "config_reachable (astro_aspects_set_orb g_aspect_configs ASTRO_ASPECT_TRINE 20) \<and>
   astro_aspects_check_aspect (astro_aspects_set_orb g_aspect_configs ASTRO_ASPECT_TRINE 20) 0 134
     = first_family_within_orb (astro_aspects_set_orb g_aspect_configs ASTRO_ASPECT_TRINE 20) 0 134 \<and>
   astro_aspects_check_aspect (astro_aspects_set_orb g_aspect_configs ASTRO_ASPECT_TRINE 20) 0 134
     = Some (ASTRO_ASPECT_TRINE, 14)"
proof -
  have r: "config_reachable (astro_aspects_set_orb g_aspect_configs ASTRO_ASPECT_TRINE 20)"
    by (intro config_reachable.set_orb config_reachable.initial)
  have v: "astro_aspects_check_aspect
             (astro_aspects_set_orb g_aspect_configs ASTRO_ASPECT_TRINE 20) 0 134
           = Some (ASTRO_ASPECT_TRINE, 14)"
    by (simp add: astro_aspects_check_aspect_def astro_aspects_set_orb_def get_aspect_config_def
          g_aspect_configs_def astro_core_angular_distance_def)
  from check_aspect_first_match [OF r, of 0 134] r v show ?thesis by simp
qed

text \<open>Claim C7. For every aspect record that \<^verbatim>\<open>astro_aspects_calc_aspect\<close> produces
  under a table the program can hold: the difference is at most the current default orb of
  the matched family; \<^verbatim>\<open>is_exact\<close> is 1 exactly when the difference is at most the tight orb
  of that family's table entry, and 0 otherwise; \<^verbatim>\<open>orb\<close> is the raw angular distance of the
  two longitudes, and the difference is the distance of that value from the family's target
  angle.\<close>

theorem calc_aspect_record:
  assumes reach: "config_reachable cfgs"
    and ok: "astro_aspects_calc_aspect cfgs (Some p1) (Some p2) OUT_VALID = Inr a"
  shows "difference a \<le> astro_aspects_get_orb cfgs (aspect_type a) \<and>
         (\<exists>i. get_aspect_config cfgs (aspect_type a) = Some i \<and>
              (is_exact a = 1) = (difference a \<le> tight_orb (cfgs ! i)) \<and>
              (is_exact a = 1 \<or> is_exact a = 0)) \<and>
         orb a = astro_core_angular_distance (longitude p1) (longitude p2) \<and>
         difference a = \<bar>orb a - real_of_int (aspect_type_value (aspect_type a))\<bar>"
proof -
  from ok obtain t od i where
    chk: "check_aspect_scan (astro_core_angular_distance (longitude p1) (longitude p2)) cfgs
            = Some (t, od)"
    and cfg: "get_aspect_config cfgs t = Some i"
    and a: "aspect_type a = t" "difference a = od"
           "orb a = astro_core_angular_distance (longitude p1) (longitude p2)"
           "is_exact a = (if od \<le> tight_orb (cfgs ! i) then 1 else 0)"
    by (auto simp: astro_aspects_calc_aspect_def astro_aspects_check_aspect_def
             split: if_splits option.splits)
  from check_aspect_scan_Some[OF chk] obtain c where
    c: "c \<in> set cfgs" "config_aspect_type c = t" "od \<le> default_orb c"
       "od = \<bar>astro_core_angular_distance (longitude p1) (longitude p2)
               - real_of_int (aspect_type_value t)\<bar>"
    by blast
  from get_orb_member[OF config_reachable_distinct[OF reach] c(1)] c(2)
  have "astro_aspects_get_orb cfgs t = default_orb c" by simp
  with c a cfg show ?thesis by simp
qed

text \<open>Bodies at 0 and 125 degrees under the built-in table: a Trine with difference 5,
  within the default orb 8 and outside the tight orb 3.\<close>

theorem calc_aspect_record_witness:
  "config_reachable g_aspect_configs \<and>
   astro_aspects_calc_aspect g_aspect_configs
       (Some (example_body 0 0 1 0 ''Sun'')) (Some (example_body 1 125 13 4 ''Moon'')) OUT_VALID
     = Inr \<lparr>planet1 = 0, planet2 = 1, aspect_type = ASTRO_ASPECT_TRINE, orb = 125,
            difference = 5, is_applying = 1, is_exact = 0, aspect_name = ''Sun trine Moon''\<rparr> \<and>
   (5::real) \<le> astro_aspects_get_orb g_aspect_configs ASTRO_ASPECT_TRINE \<and>
   get_aspect_config g_aspect_configs ASTRO_ASPECT_TRINE = Some 2 \<and>
   \<not> (5::real) \<le> tight_orb (g_aspect_configs ! 2)"
proof -
  have r: "config_reachable g_aspect_configs" by (rule config_reachable.initial)
  have v: "astro_aspects_calc_aspect g_aspect_configs
       (Some (example_body 0 0 1 0 ''Sun'')) (Some (example_body 1 125 13 4 ''Moon'')) OUT_VALID
     = Inr \<lparr>planet1 = 0, planet2 = 1, aspect_type = ASTRO_ASPECT_TRINE, orb = 125,
            difference = 5, is_applying = 1, is_exact = 0, aspect_name = ''Sun trine Moon''\<rparr>"
    by (simp add: astro_aspects_calc_aspect_def astro_aspects_check_aspect_def
          get_aspect_config_def g_aspect_configs_def astro_core_angular_distance_def
          example_body_def astro_aspects_is_applying_def snprintf_text_def ASTRO_MAX_NAME_LEN_def)
  from calc_aspect_record [OF r v] r v show ?thesis
    by (auto simp: get_aspect_config_def g_aspect_configs_def)
qed

text \<open>Claim C8. Two body records with the same identifier make
  \<^verbatim>\<open>astro_aspects_calc_aspect\<close> fail with \<^verbatim>\<open>ASTRO_ERROR_INVALID_PLANET\<close>, whatever the
  longitudes and the table. A null argument gives \<^verbatim>\<open>ASTRO_ERROR_NULL_POINTER\<close>, and two
  different bodies with no family within orb give \<^verbatim>\<open>ASTRO_ERROR_CALCULATION\<close>; the three
  codes and \<^verbatim>\<open>ASTRO_OK\<close> are different numbers.\<close>

theorem calc_aspect_same_body:
  assumes "planet pa = planet pb"
  shows "astro_aspects_calc_aspect cfgs (Some pa) (Some pb) OUT_VALID = Inl ASTRO_ERROR_INVALID_PLANET \<and>
         astro_aspects_calc_aspect cfgs None second dst = Inl ASTRO_ERROR_NULL_POINTER \<and>
         astro_aspects_calc_aspect cfgs first None dst = Inl ASTRO_ERROR_NULL_POINTER \<and>
         astro_aspects_calc_aspect cfgs first second OUT_NULL = Inl ASTRO_ERROR_NULL_POINTER \<and>
         (planet qa \<noteq> planet qb \<and>
          astro_aspects_check_aspect cfgs (longitude qa) (longitude qb) = None \<longrightarrow>
            astro_aspects_calc_aspect cfgs (Some qa) (Some qb) OUT_VALID = Inl ASTRO_ERROR_CALCULATION) \<and>
         ASTRO_ERROR_INVALID_PLANET \<noteq> ASTRO_ERROR_NULL_POINTER \<and>
         ASTRO_ERROR_INVALID_PLANET \<noteq> ASTRO_ERROR_CALCULATION \<and>
         ASTRO_ERROR_INVALID_PLANET \<noteq> ASTRO_OK"
  using assms
  by (auto simp: astro_aspects_calc_aspect_def ASTRO_ERROR_INVALID_PLANET_def
        ASTRO_ERROR_NULL_POINTER_def ASTRO_ERROR_CALCULATION_def ASTRO_OK_def
      split: option.splits out_ptr.splits)

text \<open>The same body at 10 and at 200 degrees; a null first argument; and two bodies
  20 degrees apart, which no family covers.\<close>

theorem calc_aspect_same_body_witness:
  "planet (example_body 3 10 1 0 ''Venus'') = planet (example_body 3 200 1 6 ''Venus'') \<and>
   astro_aspects_calc_aspect g_aspect_configs (Some (example_body 3 10 1 0 ''Venus''))
       (Some (example_body 3 200 1 6 ''Venus'')) OUT_VALID = Inl (- 5) \<and>
   astro_aspects_calc_aspect g_aspect_configs None
       (Some (example_body 3 200 1 6 ''Venus'')) OUT_VALID = Inl (- 7) \<and>
   planet (example_body 0 0 1 0 ''Sun'') \<noteq> planet (example_body 1 20 13 0 ''Moon'') \<and>
   astro_aspects_check_aspect g_aspect_configs 0 20 = None \<and>
   astro_aspects_calc_aspect g_aspect_configs (Some (example_body 0 0 1 0 ''Sun''))
       (Some (example_body 1 20 13 0 ''Moon'')) OUT_VALID = Inl (- 4)"
proof -
  have h: "planet (example_body 3 10 1 0 ''Venus'') = planet (example_body 3 200 1 6 ''Venus'')"
    by (simp add: example_body_def)
  have n: "planet (example_body 0 0 1 0 ''Sun'') \<noteq> planet (example_body 1 20 13 0 ''Moon'') \<and>
           astro_aspects_check_aspect g_aspect_configs
             (longitude (example_body 0 0 1 0 ''Sun''))
             (longitude (example_body 1 20 13 0 ''Moon'')) = None"
    by (simp add: example_body_def astro_aspects_check_aspect_def g_aspect_configs_def
          astro_core_angular_distance_def)
  from calc_aspect_same_body [where cfgs = g_aspect_configs
         and second = "Some (example_body 3 200 1 6 ''Venus'')" and dst = OUT_VALID
         and qa = "example_body 0 0 1 0 ''Sun''" and qb = "example_body 1 20 13 0 ''Moon''", OF h]
       h n
  show ?thesis
    by (simp add: ASTRO_ERROR_INVALID_PLANET_def ASTRO_ERROR_NULL_POINTER_def
          ASTRO_ERROR_CALCULATION_def example_body_def)
qed

text \<open>Claim C9. For two body records and an aspect, \<^verbatim>\<open>astro_aspects_is_applying\<close>
  answers -1 (stationary) exactly when the absolute speed difference is below 0.01. From
  0.01 on the answer is 1 (applying) or 0 (separating); with a positive speed difference it
  is 1 exactly when the angular distance is below the target angle, with a negative one
  exactly when the angular distance is above the target angle.\<close>

theorem is_applying_classification:
  "(astro_aspects_is_applying (Some p1) (Some p2) (Some t) = - 1) =
     (\<bar>longitude_speed p1 - longitude_speed p2\<bar> < 1 / 100) \<and>
   (\<bar>longitude_speed p1 - longitude_speed p2\<bar> \<ge> 1 / 100 \<longrightarrow>
      (astro_aspects_is_applying (Some p1) (Some p2) (Some t) = 1 \<or>
       astro_aspects_is_applying (Some p1) (Some p2) (Some t) = 0) \<and>
      (longitude_speed p1 - longitude_speed p2 > 0 \<longrightarrow>
         (astro_aspects_is_applying (Some p1) (Some p2) (Some t) = 1) =
         (astro_core_angular_distance (longitude p1) (longitude p2)
            < real_of_int (aspect_type_value t))) \<and>
      (longitude_speed p1 - longitude_speed p2 < 0 \<longrightarrow>
         (astro_aspects_is_applying (Some p1) (Some p2) (Some t) = 1) =
         (astro_core_angular_distance (longitude p1) (longitude p2)
            > real_of_int (aspect_type_value t))))"
  by (auto simp: astro_aspects_is_applying_def Let_def)

text \<open>A fast body 118 degrees from a slow one, on the way to the exact Trine.\<close>

theorem is_applying_classification_witness:
  "\<bar>longitude_speed (example_body 1 0 13 0 ''Moon'')
      - longitude_speed (example_body 0 118 1 3 ''Sun'')\<bar> \<ge> 1 / 100 \<and>
   longitude_speed (example_body 1 0 13 0 ''Moon'')
      - longitude_speed (example_body 0 118 1 3 ''Sun'') > 0 \<and>
   astro_core_angular_distance 0 118 < real_of_int (aspect_type_value ASTRO_ASPECT_TRINE) \<and>
   astro_aspects_is_applying (Some (example_body 1 0 13 0 ''Moon''))
      (Some (example_body 0 118 1 3 ''Sun'')) (Some ASTRO_ASPECT_TRINE) = 1"
  using is_applying_classification [of "example_body 1 0 13 0 ''Moon''"
           "example_body 0 118 1 3 ''Sun''" ASTRO_ASPECT_TRINE]
  by (simp add: example_body_def astro_core_angular_distance_def)

subsection \<open>Angular distance\<close>

lemma angular_distance_commute:
  "astro_core_angular_distance a b = astro_core_angular_distance b a"
  by (simp add: astro_core_angular_distance_def Let_def abs_minus_commute)

lemma angular_distance_range:
  "\<bar>b - a\<bar> \<le> 360 \<Longrightarrow>
     0 \<le> astro_core_angular_distance a b \<and> astro_core_angular_distance a b \<le> 180"
  by (simp add: astro_core_angular_distance_def Let_def)

text \<open>Claim C10. For all longitudes \<open>a\<close> and \<open>b\<close>, which the data model and the
  ephemeris keep in the range from 0 up to 360, the angular distance from \<open>a\<close> to \<open>b\<close>
  equals the one from \<open>b\<close> to \<open>a\<close> and lies in the interval from 0 to 180.\<close>

theorem angular_distance_symmetric_bounded:
  assumes "0 \<le> a" and "a < 360" and "0 \<le> b" and "b < 360"
  shows "astro_core_angular_distance a b = astro_core_angular_distance b a \<and>
         0 \<le> astro_core_angular_distance a b \<and> astro_core_angular_distance a b \<le> 180"
proof -
  from assms have "\<bar>b - a\<bar> \<le> 360" by simp
  then show ?thesis
    using angular_distance_commute [of a b] angular_distance_range [of b a] by simp
qed

text \<open>Longitudes 10 and 350: the distance is 20 in both directions.\<close>

theorem angular_distance_symmetric_bounded_witness:
  "(0::real) \<le> 10 \<and> (10::real) < 360 \<and> (0::real) \<le> 350 \<and> (350::real) < 360 \<and>
   astro_core_angular_distance 10 350 = astro_core_angular_distance 350 10 \<and>
   astro_core_angular_distance 10 350 = 20 \<and>
   0 \<le> astro_core_angular_distance 10 350 \<and> astro_core_angular_distance 10 350 \<le> 180"
proof -
  have v: "astro_core_angular_distance 10 350 = 20"
    by (simp add: astro_core_angular_distance_def)
  from angular_distance_symmetric_bounded [of 10 350] v show ?thesis by simp
qed

subsection \<open>The aspect builders and the capacity\<close>

text \<open>Both loops of \<^verbatim>\<open>astro_aspects_calc_all\<close> and of
  \<^verbatim>\<open>astro_aspects_calc_between_charts\<close> test the count, so these two never store more
  than the capacity.\<close>

lemma calc_all_inner_bound:
  "int (length (calc_all_inner cfgs p rest m found)) \<le> max (int (length found)) m"
proof (induction rest arbitrary: found)
  case Nil
  show ?case by simp
next
  case (Cons q rest)
  show ?case
  proof (cases "int (length found) < m")
    case True
    show ?thesis
    proof (cases "astro_aspects_calc_aspect cfgs (Some p) (Some q) OUT_VALID")
      case (Inl e)
      with True Cons.IH [of found] show ?thesis by simp
    next
      case (Inr a)
      with True Cons.IH [of "found @ [a]"] show ?thesis by simp
    qed
  next
    case False
    then show ?thesis by simp
  qed
qed

lemma calc_all_outer_bound:
  "int (length (calc_all_outer cfgs ps m found)) \<le> max (int (length found)) m"
proof (induction ps arbitrary: found)
  case Nil
  show ?case by simp
next
  case (Cons p ps)
  show ?case
    using Cons.IH [of "calc_all_inner cfgs p ps m found"] calc_all_inner_bound [of cfgs p ps m found]
    by auto
qed

lemma calc_between_inner_bound:
  "int (length (calc_between_inner cfgs p rest m found)) \<le> max (int (length found)) m"
proof (induction rest arbitrary: found)
  case Nil
  show ?case by simp
next
  case (Cons q rest)
  show ?case
  proof (cases "int (length found) < m")
    case True
    show ?thesis
    proof (cases "astro_aspects_calc_aspect cfgs (Some p) (Some q) OUT_VALID")
      case (Inl e)
      with True Cons.IH [of found] show ?thesis by simp
    next
      case (Inr a)
      with True Cons.IH [of "found @ [a]"] show ?thesis by simp
    qed
  next
    case False
    then show ?thesis by simp
  qed
qed

lemma calc_between_outer_bound:
  "int (length (calc_between_outer cfgs natal ts m found)) \<le> max (int (length found)) m"
proof (induction ts arbitrary: found)
  case Nil
  show ?case by simp
next
  case (Cons p ps)
  show ?case
    using Cons.IH [of "calc_between_inner cfgs p natal m found"]
      calc_between_inner_bound [of cfgs p natal m found]
    by auto
qed

lemma calc_all_within_capacity:
  assumes "astro_aspects_calc_all cfgs positions aspects max_aspects num_aspects = Inr (found, n)"
    and "0 \<le> max_aspects"
  shows "n = int (length found) \<and> n \<le> max_aspects"
  using assms calc_all_outer_bound [of cfgs "the positions" max_aspects "[]"]
  by (auto simp: astro_aspects_calc_all_def Let_def split: option.splits out_ptr.splits)

lemma calc_between_charts_within_capacity:
  assumes "astro_aspects_calc_between_charts cfgs natal transit aspects max_aspects num_aspects
             = Inr (found, n)"
    and "0 \<le> max_aspects"
  shows "n = int (length found) \<and> n \<le> max_aspects"
  using assms calc_between_outer_bound [of cfgs "the natal" "the transit" max_aspects "[]"]
  by (auto simp: astro_aspects_calc_between_charts_def Let_def split: option.splits out_ptr.splits)

subsection \<open>The records of the pattern detector\<close>

lemma planets_in_sign_scan_length:
  "length acc \<le> ASTRO_MAX_PLANETS \<Longrightarrow>
     length (planets_in_sign_scan ps i s acc) \<le> ASTRO_MAX_PLANETS"
  by (induction ps arbitrary: i acc) (auto simp: ASTRO_MAX_PLANETS_def)

lemma grand_trine_third_side_consistent:
  "list_all participants_consistent found \<Longrightarrow>
     list_all participants_consistent (grand_trine_third_side asps ps p1 p2 t found)"
  by (induction asps) (auto simp: participants_consistent_def)

lemma grand_trine_second_consistent:
  "list_all participants_consistent found \<Longrightarrow>
     list_all participants_consistent (grand_trine_second asps ps ai rest found)"
  by (induction rest arbitrary: found) (auto simp: grand_trine_third_side_consistent Let_def)

lemma grand_trine_first_consistent:
  "list_all participants_consistent found \<Longrightarrow>
     list_all participants_consistent (grand_trine_first asps ps rest m found)"
  by (induction rest arbitrary: found) (auto simp: grand_trine_second_consistent)

lemma t_square_third_consistent:
  "list_all participants_consistent found \<Longrightarrow>
     list_all participants_consistent (t_square_third asps ps p1 p2 s found)"
  by (induction asps) (auto simp: participants_consistent_def)

lemma t_square_second_consistent:
  "list_all participants_consistent found \<Longrightarrow>
     list_all participants_consistent (t_square_second asps ps p1 p2 rest found)"
  by (induction rest arbitrary: found) (auto simp: t_square_third_consistent Let_def)

lemma t_square_first_consistent:
  "list_all participants_consistent found \<Longrightarrow>
     list_all participants_consistent (t_square_first asps ps rest m found)"
  by (induction rest arbitrary: found) (auto simp: t_square_second_consistent)

lemma store_participants_type:
  "pattern_type (store_participants pat i vs) = pattern_type pat"
  by (induction vs arbitrary: pat i) (simp_all add: store_participant_def)

lemma store_participants_length:
  "length (planets pat) = min i 6 \<Longrightarrow>
     length (planets (store_participants pat i vs)) = min (i + length vs) 6"
proof (induction vs arbitrary: pat i)
  case Nil
  then show ?case by simp
next
  case (Cons v vs)
  have "length (planets (store_participant pat i v)) = min (Suc i) 6"
    using Cons.prems by (simp add: store_participant_def)
  from Cons.IH [OF this] show ?case by simp
qed

lemma stellium_scan_consistent:
  "list_all participants_consistent found \<Longrightarrow>
     list_all participants_consistent (stellium_scan ps s m found)"
proof (induction ps s m found rule: stellium_scan.induct)
  case (1 positions sign_no max_patterns found)
  show ?case
  proof (cases "sign_no < 12 \<and> int (length found) < max_patterns")
    case True
    have "list_all participants_consistent
            (stellium_scan positions (sign_no + 1) max_patterns
               (if 3 \<le> length (planets_in_sign_scan positions 0 sign_no [])
                then found @
                       [(store_participants
                           \<lparr>pattern_type = ASTRO_PATTERN_STELLIUM,
                            planets = [],
                            num_planets = int (length (planets_in_sign_scan positions 0 sign_no [])),
                            description = None\<rparr>
                           0
                           (map (\<lambda>i. planet (positions ! i))
                                (planets_in_sign_scan positions 0 sign_no [])))
                        \<lparr>description := Some (snprintf_text 256
                           (''Stellium in '' @ astro_core_get_sign_name sign_no @ '' ('' @
                            decimal (length (planets_in_sign_scan positions 0 sign_no [])) @
                            '' planets)''))\<rparr>]
                else found))"
      using "1.prems"
      by (intro "1.IH" [OF True])
         (simp add: participants_consistent_def store_participants_type
            store_participants_length)
    with True show ?thesis
      by (subst stellium_scan.simps) simp
  next
    case False
    then show ?thesis using "1.prems" by (subst stellium_scan.simps) auto
  qed
qed

lemma find_patterns_participants:
  assumes "astro_aspects_find_patterns positions aspects patterns max_patterns num_patterns
             = Inr (found, n)"
  shows "list_all participants_consistent found"
  using assms
  by (auto simp: astro_aspects_find_patterns_def Let_def stellium_scan_consistent
        t_square_first_consistent grand_trine_first_consistent
      split: option.splits out_ptr.splits)

text \<open>The T-Square and Stellium scans append records of their own families only.\<close>

lemma t_square_third_keeps:
  "patterns_of_type ASTRO_PATTERN_GRAND_TRINE (t_square_third asps ps p1 p2 s found)
     = patterns_of_type ASTRO_PATTERN_GRAND_TRINE found"
  by (induction asps) (auto simp: patterns_of_type_def)

lemma t_square_second_keeps:
  "patterns_of_type ASTRO_PATTERN_GRAND_TRINE (t_square_second asps ps p1 p2 rest found)
     = patterns_of_type ASTRO_PATTERN_GRAND_TRINE found"
  by (induction rest arbitrary: found) (auto simp: t_square_third_keeps Let_def)

lemma t_square_first_keeps:
  "patterns_of_type ASTRO_PATTERN_GRAND_TRINE (t_square_first asps ps rest m found)
     = patterns_of_type ASTRO_PATTERN_GRAND_TRINE found"
  by (induction rest arbitrary: found) (auto simp: t_square_second_keeps)

lemma stellium_scan_keeps:
  "patterns_of_type ASTRO_PATTERN_GRAND_TRINE (stellium_scan ps s m found)
     = patterns_of_type ASTRO_PATTERN_GRAND_TRINE found"
proof (induction ps s m found rule: stellium_scan.induct)
  case (1 positions sign_no max_patterns found)
  show ?case
  proof (cases "sign_no < 12 \<and> int (length found) < max_patterns")
    case True
    then show ?thesis
      using "1.IH"
      by (subst stellium_scan.simps) (simp add: patterns_of_type_def store_participants_type)
  next
    case False
    then show ?thesis by (subst stellium_scan.simps) auto
  qed
qed

lemma find_patterns_return_ok:
  "return_code (astro_aspects_find_patterns (Some ps) (Some asps) OUT_VALID m OUT_VALID) = ASTRO_OK"
  by (simp add: astro_aspects_find_patterns_def return_code_def Let_def)

lemma find_patterns_grand_trines:
  "patterns_of_type ASTRO_PATTERN_GRAND_TRINE
     (entries_written (astro_aspects_find_patterns (Some ps) (Some asps) OUT_VALID m OUT_VALID))
   = patterns_of_type ASTRO_PATTERN_GRAND_TRINE (grand_trine_first asps ps asps m [])"
  by (simp add: astro_aspects_find_patterns_def entries_written_def Let_def
        stellium_scan_keeps t_square_first_keeps)

subsection \<open>Three bodies 120 degrees apart\<close>

lemma calc_all_three_bodies:
  assumes "astro_aspects_calc_aspect cfgs (Some b1) (Some b2) OUT_VALID = Inr a12"
    and "astro_aspects_calc_aspect cfgs (Some b1) (Some b3) OUT_VALID = Inr a13"
    and "astro_aspects_calc_aspect cfgs (Some b2) (Some b3) OUT_VALID = Inr a23"
    and "3 \<le> max_aspects"
  shows "astro_aspects_calc_all cfgs (Some [b1, b2, b3]) OUT_VALID max_aspects OUT_VALID
           = Inr ([a12, a13, a23], 3)"
  using assms by (simp add: astro_aspects_calc_all_def)

lemma grand_trine_first_triangle:
  assumes sel: "planet1 a12 = x" "planet2 a12 = y" "aspect_type a12 = ASTRO_ASPECT_TRINE"
      "planet1 a13 = x" "planet2 a13 = z" "aspect_type a13 = ASTRO_ASPECT_TRINE"
      "planet1 a23 = y" "planet2 a23 = z" "aspect_type a23 = ASTRO_ASPECT_TRINE"
    and ids: "x \<noteq> y" "x \<noteq> z" "y \<noteq> z"
    and valid: "0 \<le> x" "0 \<le> y" "0 \<le> z"
    and cap: "3 \<le> max_patterns"
  shows "grand_trine_first [a12, a13, a23] ps [a12, a13, a23] max_patterns []
           = [\<lparr>pattern_type = ASTRO_PATTERN_GRAND_TRINE, planets = [x, y, z], num_planets = 3,
                description = grand_trine_description ps x y z\<rparr>,
              \<lparr>pattern_type = ASTRO_PATTERN_GRAND_TRINE, planets = [x, y, z], num_planets = 3,
                description = grand_trine_description ps x y z\<rparr>,
              \<lparr>pattern_type = ASTRO_PATTERN_GRAND_TRINE, planets = [x, z, y], num_planets = 3,
                description = grand_trine_description ps x z y\<rparr>]"
  using cap ids valid by (simp add: sel Let_def)

lemma calc_aspect_trine:
  assumes "astro_aspects_check_aspect cfgs (longitude p) (longitude q)
             = Some (ASTRO_ASPECT_TRINE, d)"
    and "planet p \<noteq> planet q"
  shows "\<exists>a. astro_aspects_calc_aspect cfgs (Some p) (Some q) OUT_VALID = Inr a \<and>
             planet1 a = planet p \<and> planet2 a = planet q \<and> aspect_type a = ASTRO_ASPECT_TRINE"
proof -
  from assms(1) have "check_aspect_scan (astro_core_angular_distance (longitude p) (longitude q)) cfgs
      = Some (ASTRO_ASPECT_TRINE, d)"
    by (simp add: astro_aspects_check_aspect_def)
  from check_aspect_scan_config_found[OF this] obtain i where
    "get_aspect_config cfgs ASTRO_ASPECT_TRINE = Some i" by blast
  with assms show ?thesis by (simp add: astro_aspects_calc_aspect_def)
qed

text \<open>Claim C3, amended. Take three bodies with pairwise different identifiers (valid
  enumerators, so not negative) at 0, 120 and 240 degrees, any speeds, signs and names, a
  table under which a separation of 120 degrees is detected as a Trine (the built-in table is
  one), and room for at least three aspects and three patterns. Then
  \<^verbatim>\<open>astro_aspects_calc_all\<close> stores exactly three aspects, all Trines, and
  \<^verbatim>\<open>astro_aspects_find_patterns\<close> succeeds and reports the Grand Trine of the three bodies
  exactly three times, once for each pair of its sides, and no other Grand Trine.\<close>

theorem grand_trine_scenario:
  assumes lon: "longitude b1 = 0" "longitude b2 = 120" "longitude b3 = 240"
    and ids: "planet b1 \<noteq> planet b2" "planet b1 \<noteq> planet b3" "planet b2 \<noteq> planet b3"
    and valid: "0 \<le> planet b1" "0 \<le> planet b2" "0 \<le> planet b3"
    and table: "astro_aspects_check_aspect cfgs 0 120 = Some (ASTRO_ASPECT_TRINE, 0)"
    and cap: "3 \<le> max_aspects" "3 \<le> max_patterns"
  shows "count_stored (astro_aspects_calc_all cfgs (Some [b1, b2, b3]) OUT_VALID max_aspects OUT_VALID)
           = Some 3 \<and>
         map aspect_type
             (entries_written
                (astro_aspects_calc_all cfgs (Some [b1, b2, b3]) OUT_VALID max_aspects OUT_VALID))
           = [ASTRO_ASPECT_TRINE, ASTRO_ASPECT_TRINE, ASTRO_ASPECT_TRINE] \<and>
         return_code
             (astro_aspects_find_patterns (Some [b1, b2, b3])
                (Some (entries_written
                   (astro_aspects_calc_all cfgs (Some [b1, b2, b3]) OUT_VALID max_aspects OUT_VALID)))
                OUT_VALID max_patterns OUT_VALID)
           = ASTRO_OK \<and>
         map planets
             (patterns_of_type ASTRO_PATTERN_GRAND_TRINE
                (entries_written
                   (astro_aspects_find_patterns (Some [b1, b2, b3])
                      (Some (entries_written
                         (astro_aspects_calc_all cfgs (Some [b1, b2, b3]) OUT_VALID max_aspects
                            OUT_VALID)))
                      OUT_VALID max_patterns OUT_VALID)))
           = [[planet b1, planet b2, planet b3],
              [planet b1, planet b2, planet b3],
              [planet b1, planet b3, planet b2]]"
proof -
  have d: "astro_core_angular_distance 0 120 = 120" "astro_core_angular_distance 0 240 = 120"
          "astro_core_angular_distance 120 240 = 120"
    by (simp_all add: astro_core_angular_distance_def)
  from table d have chk:
      "astro_aspects_check_aspect cfgs (longitude b1) (longitude b2) = Some (ASTRO_ASPECT_TRINE, 0)"
      "astro_aspects_check_aspect cfgs (longitude b1) (longitude b3) = Some (ASTRO_ASPECT_TRINE, 0)"
      "astro_aspects_check_aspect cfgs (longitude b2) (longitude b3) = Some (ASTRO_ASPECT_TRINE, 0)"
    by (simp_all add: astro_aspects_check_aspect_def lon)
  from calc_aspect_trine[OF chk(1) ids(1)] obtain a12 where
    c12: "astro_aspects_calc_aspect cfgs (Some b1) (Some b2) OUT_VALID = Inr a12"
    and s12: "planet1 a12 = planet b1" "planet2 a12 = planet b2"
             "aspect_type a12 = ASTRO_ASPECT_TRINE"
    by blast
  from calc_aspect_trine[OF chk(2) ids(2)] obtain a13 where
    c13: "astro_aspects_calc_aspect cfgs (Some b1) (Some b3) OUT_VALID = Inr a13"
    and s13: "planet1 a13 = planet b1" "planet2 a13 = planet b3"
             "aspect_type a13 = ASTRO_ASPECT_TRINE"
    by blast
  from calc_aspect_trine[OF chk(3) ids(3)] obtain a23 where
    c23: "astro_aspects_calc_aspect cfgs (Some b2) (Some b3) OUT_VALID = Inr a23"
    and s23: "planet1 a23 = planet b2" "planet2 a23 = planet b3"
             "aspect_type a23 = ASTRO_ASPECT_TRINE"
    by blast
  note all = calc_all_three_bodies [OF c12 c13 c23 cap(1)]
  note gt = grand_trine_first_triangle [OF s12 s13 s23 ids valid cap(2), of "[b1, b2, b3]"]
  have count: "count_stored (astro_aspects_calc_all cfgs (Some [b1, b2, b3]) OUT_VALID max_aspects
                  OUT_VALID) = Some 3"
    by (simp add: all count_stored_def)
  have written: "entries_written (astro_aspects_calc_all cfgs (Some [b1, b2, b3]) OUT_VALID
                   max_aspects OUT_VALID) = [a12, a13, a23]"
    by (simp add: all entries_written_def)
  have types: "map aspect_type [a12, a13, a23]
                 = [ASTRO_ASPECT_TRINE, ASTRO_ASPECT_TRINE, ASTRO_ASPECT_TRINE]"
    by (simp add: s12 s13 s23)
  have pats: "map planets (patterns_of_type ASTRO_PATTERN_GRAND_TRINE
          (entries_written (astro_aspects_find_patterns (Some [b1, b2, b3]) (Some [a12, a13, a23])
             OUT_VALID max_patterns OUT_VALID)))
        = [[planet b1, planet b2, planet b3],
           [planet b1, planet b2, planet b3],
           [planet b1, planet b3, planet b2]]"
    unfolding find_patterns_grand_trines gt by (simp add: patterns_of_type_def)
  show ?thesis
    unfolding written using count types find_patterns_return_ok pats by blast
qed

theorem grand_trine_scenario_witness:
  "longitude (example_body 0 0 1 0 ''Sun'') = 0 \<and>
   longitude (example_body 1 120 13 4 ''Moon'') = 120 \<and>
   longitude (example_body 2 240 (3 / 2) 8 ''Mercury'') = 240 \<and>
   astro_aspects_check_aspect g_aspect_configs 0 120 = Some (ASTRO_ASPECT_TRINE, 0) \<and>
   count_stored (astro_aspects_calc_all g_aspect_configs (Some grand_trine_chart) OUT_VALID 50
       OUT_VALID) = Some 3 \<and>
   map aspect_type (chart_aspects grand_trine_chart)
     = [ASTRO_ASPECT_TRINE, ASTRO_ASPECT_TRINE, ASTRO_ASPECT_TRINE] \<and>
   map planets
       (patterns_of_type ASTRO_PATTERN_GRAND_TRINE
          (entries_written
             (astro_aspects_find_patterns (Some grand_trine_chart)
                (Some (chart_aspects grand_trine_chart)) OUT_VALID 20 OUT_VALID)))
     = [[0, 1, 2], [0, 1, 2], [0, 2, 1]]"
proof -
  have lon: "longitude (example_body 0 0 1 0 ''Sun'') = 0"
      "longitude (example_body 1 120 13 4 ''Moon'') = 120"
      "longitude (example_body 2 240 (3 / 2) 8 ''Mercury'') = 240"
    by (simp_all add: example_body_def)
  have ids: "planet (example_body 0 0 1 0 ''Sun'') \<noteq> planet (example_body 1 120 13 4 ''Moon'')"
      "planet (example_body 0 0 1 0 ''Sun'') \<noteq> planet (example_body 2 240 (3 / 2) 8 ''Mercury'')"
      "planet (example_body 1 120 13 4 ''Moon'')
         \<noteq> planet (example_body 2 240 (3 / 2) 8 ''Mercury'')"
    by (simp_all add: example_body_def)
  have valid: "0 \<le> planet (example_body 0 0 1 0 ''Sun'')"
      "0 \<le> planet (example_body 1 120 13 4 ''Moon'')"
      "0 \<le> planet (example_body 2 240 (3 / 2) 8 ''Mercury'')"
    by (simp_all add: example_body_def)
  have table: "astro_aspects_check_aspect g_aspect_configs 0 120 = Some (ASTRO_ASPECT_TRINE, 0)"
    by (simp add: astro_aspects_check_aspect_def g_aspect_configs_def
          astro_core_angular_distance_def)
  have cap: "(3::int) \<le> 50" "(3::int) \<le> 20" by simp_all
  have sel: "planet (example_body 0 0 1 0 ''Sun'') = 0"
      "planet (example_body 1 120 13 4 ''Moon'') = 1"
      "planet (example_body 2 240 (3 / 2) 8 ''Mercury'') = 2"
    by (simp_all add: example_body_def)
  from grand_trine_scenario [OF lon ids valid table cap]
  show ?thesis
    unfolding chart_aspects_def grand_trine_chart_def sel
    using lon table by blast
qed

subsection \<open>Pattern detection on concrete charts\<close>

lemmas eval_defs = entries_written_def count_stored_def grand_trine_chart_def open_trine_chart_def
  half_square_chart_def crowded_sign_chart_def example_body_def chart_aspects_def
  astro_aspects_calc_all_def astro_aspects_calc_aspect_def astro_aspects_check_aspect_def
  get_aspect_config_def g_aspect_configs_def astro_core_angular_distance_def
  astro_aspects_is_applying_def snprintf_text_def ASTRO_MAX_NAME_LEN_def
  astro_aspects_find_patterns_def grand_trine_description_def t_square_description_def
  position_name_def stellium_scan.simps store_participant_def ASTRO_MAX_PLANETS_def
  astro_core_get_sign_name_def sign_names_def decimal.simps Let_def return_code_def ASTRO_OK_def

text \<open>Claim C1 at a failing input. In the chart with one body in trine to two others, the
  aspect set holds the trines 0-1 and 0-2 and, between the bodies 1 and 2, a sesquiquadrate.
  The pattern detector reports the Grand Trine 0, 1, 2 all the same: the search for the
  third side accepts any trine from an end of the first trine to the third body, and the
  second trine itself is one.\<close>

theorem grand_trine_reported_without_third_side:
  "map aspect_type (chart_aspects open_trine_chart)
     = [ASTRO_ASPECT_TRINE, ASTRO_ASPECT_TRINE, ASTRO_ASPECT_SESQUIQUADRATE] \<and>
   map planet1 (chart_aspects open_trine_chart) = [0, 0, 1] \<and>
   map planet2 (chart_aspects open_trine_chart) = [1, 2, 2] \<and>
   astro_aspects_find_patterns (Some open_trine_chart) (Some (chart_aspects open_trine_chart))
       OUT_VALID 20 OUT_VALID
     = Inr ([\<lparr>pattern_type = ASTRO_PATTERN_GRAND_TRINE, planets = [0, 1, 2], num_planets = 3,
               description = Some ''Grand Trine: Sun, Moon, Mercury''\<rparr>], 1)"
  by (simp add: eval_defs)

text \<open>Claim C2 at a failing input. In the chart with an opposition 0-1 and a body 2 square
  to body 0 only, the aspect set holds the opposition and that one square. The pattern
  detector reports the T-Square 0, 1, 2: the search for the second square accepts any square
  between body 2 and an end of the opposition, and the first square itself is one.\<close>

theorem t_square_reported_with_one_square:
  "map aspect_type (chart_aspects half_square_chart)
     = [ASTRO_ASPECT_OPPOSITION, ASTRO_ASPECT_SQUARE] \<and>
   map planet1 (chart_aspects half_square_chart) = [0, 0] \<and>
   map planet2 (chart_aspects half_square_chart) = [1, 2] \<and>
   astro_aspects_find_patterns (Some half_square_chart) (Some (chart_aspects half_square_chart))
       OUT_VALID 20 OUT_VALID
     = Inr ([\<lparr>pattern_type = ASTRO_PATTERN_T_SQUARE, planets = [0, 1, 2], num_planets = 3,
               description = Some ''T-Square: Sun opp Moon, both square Mercury''\<rparr>], 1)"
  by (simp add: eval_defs)

text \<open>Claim C4 at a failing input. With room for one pattern, the pattern detector run on
  the three trines of the Grand Trine chart writes two patterns and stores the count 2, and
  returns \<^verbatim>\<open>ASTRO_OK\<close>: only the outer loop tests the count against the capacity.\<close>

theorem find_patterns_writes_past_capacity:
  "map aspect_type (chart_aspects grand_trine_chart)
     = [ASTRO_ASPECT_TRINE, ASTRO_ASPECT_TRINE, ASTRO_ASPECT_TRINE] \<and>
   return_code (astro_aspects_find_patterns (Some grand_trine_chart)
       (Some (chart_aspects grand_trine_chart)) OUT_VALID 1 OUT_VALID) = ASTRO_OK \<and>
   count_stored (astro_aspects_find_patterns (Some grand_trine_chart)
       (Some (chart_aspects grand_trine_chart)) OUT_VALID 1 OUT_VALID) = Some 2 \<and>
   length (entries_written (astro_aspects_find_patterns (Some grand_trine_chart)
       (Some (chart_aspects grand_trine_chart)) OUT_VALID 1 OUT_VALID)) = 2"
  by (simp add: eval_defs)

text \<open>Claim C5 at a failing input. With seven bodies in one sign the Stellium scan
  collects seven indices and runs seven stores into the six-slot participant array. The
  seventh store, \<^verbatim>\<open>planets[6]\<close>, is outside the array; it overwrites the count 7 that was
  assigned before the loop with the identifier 9 of the seventh body. The record that results
  lists six participants and has \<^verbatim>\<open>num_planets\<close> = 9, while its description still says
  seven.\<close>

theorem stellium_seventh_store_out_of_bounds:
  "planets_in_sign_scan crowded_sign_chart 0 0 [] = [0, 1, 2, 3, 4, 5, 6] \<and>
   astro_aspects_find_patterns (Some crowded_sign_chart) (Some (chart_aspects crowded_sign_chart))
       OUT_VALID 20 OUT_VALID
     = Inr ([\<lparr>pattern_type = ASTRO_PATTERN_STELLIUM, planets = [0, 1, 2, 3, 4, 5],
               num_planets = 9,
               description = Some ''Stellium in Aries (7 planets)''\<rparr>], 1)"
  by (simp add: eval_defs)

text \<open>Claim C3 as stated fails: on the chart of three bodies at 0, 120 and 240 degrees
  the pattern detector stores three Grand Trine patterns, not one.\<close>

theorem grand_trine_reported_three_times:
  "map aspect_type (chart_aspects grand_trine_chart)
     = [ASTRO_ASPECT_TRINE, ASTRO_ASPECT_TRINE, ASTRO_ASPECT_TRINE] \<and>
   count_stored (astro_aspects_find_patterns (Some grand_trine_chart)
       (Some (chart_aspects grand_trine_chart)) OUT_VALID 20 OUT_VALID) = Some 3 \<and>
   map pattern_type (entries_written (astro_aspects_find_patterns (Some grand_trine_chart)
       (Some (chart_aspects grand_trine_chart)) OUT_VALID 20 OUT_VALID))
     = [ASTRO_PATTERN_GRAND_TRINE, ASTRO_PATTERN_GRAND_TRINE, ASTRO_PATTERN_GRAND_TRINE] \<and>
   map planets (entries_written (astro_aspects_find_patterns (Some grand_trine_chart)
       (Some (chart_aspects grand_trine_chart)) OUT_VALID 20 OUT_VALID))
     = [[0, 1, 2], [0, 1, 2], [0, 2, 1]]"
  by (simp add: eval_defs)

end
